theory Spec2Isabelle
  imports Complex_Main
begin

section \<open>Values of the JavaScript runtime\<close>

text \<open>
  The result of an expression that may be an object, \<open>undefined\<close> or \<open>null\<close>
  (\<open>Array.prototype.find\<close>, \<open>Array.prototype.at\<close>, the operator \<open>||\<close>).
\<close>

datatype 'a js_ref = JsUndefined | JsNull | JsObject 'a

text \<open>An object is truthy; \<open>undefined\<close> and \<open>null\<close> are falsy.\<close>

fun truthy_ref :: "'a js_ref \<Rightarrow> bool" where
  "truthy_ref (JsObject _) = True"
| "truthy_ref _ = False"

text \<open>\<open>a || b\<close>: the left operand when it is truthy, the right one otherwise.\<close>

definition or_ref :: "'a js_ref \<Rightarrow> 'a js_ref \<Rightarrow> 'a js_ref" where
  "or_ref a b = (if truthy_ref a then a else b)"

text \<open>\<open>xs.find(P)\<close>: the first element that satisfies \<open>P\<close>, \<open>undefined\<close> when none does.\<close>

fun find_js :: "('a \<Rightarrow> bool) \<Rightarrow> 'a list \<Rightarrow> 'a js_ref" where
  "find_js P [] = JsUndefined"
| "find_js P (x # xs) = (if P x then JsObject x else find_js P xs)"

text \<open>
  \<open>xs.at(i)\<close>: a negative index counts from the end; an index out of range gives
  \<open>undefined\<close>.
\<close>

definition at_js :: "'a list \<Rightarrow> int \<Rightarrow> 'a js_ref" where
  "at_js xs i =
     (let n = int (length xs); k = (if i < 0 then n + i else i)
      in if 0 \<le> k \<and> k < n then JsObject (xs ! nat k) else JsUndefined)"


section \<open>The chord timeline and the lookup of the active chord\<close>

text \<open>
  One chord segment as the frontend reads it: \<open>{ startSec, endSec, label }\<close>. The times
  are finite JavaScript numbers compared with \<open>>=\<close> and \<open><\<close> only, so they are
  modelled as reals.
\<close>

record interval =
  startSec :: real
  endSec :: real
  label :: string

text \<open>
  \<open>getChordAtTime(t)\<close> of \<open>script.js\<close>; the global \<open>currentChords\<close> is the first
  argument.
\<close>

definition getChordAtTime :: "interval list \<Rightarrow> real \<Rightarrow> interval js_ref" where
  "getChordAtTime currentChords t =
     or_ref
       (or_ref
          (find_js (\<lambda>c. t \<ge> startSec c \<and> t < endSec c) currentChords)
          (at_js currentChords (- 1)))
       JsNull"

text \<open>The spec's wording of the half-open containment \<open>[startSec, endSec)\<close>.\<close>

definition contains_time :: "interval \<Rightarrow> real \<Rightarrow> bool" where
  "contains_time i t = (startSec i \<le> t \<and> t < endSec i)"

text \<open>
  The timeline invariants of the data model: ordered by \<open>startSec\<close>, and each interval
  ends no later than the next one starts.
\<close>

definition sorted_by_start :: "interval list \<Rightarrow> bool" where
  "sorted_by_start cs = sorted (map startSec cs)"

fun non_overlapping :: "interval list \<Rightarrow> bool" where
  "non_overlapping (a # b # cs) = (endSec a \<le> startSec b \<and> non_overlapping (b # cs))"
| "non_overlapping _ = True"


section \<open>The current-chord display\<close>

text \<open>
  What \<open>CHORD_IMAGE_MAP[label]\<close> can be besides \<open>undefined\<close>: a filename of the
  object's own entries, or a member that the plain object inherits from
  \<open>Object.prototype\<close> (a function, or the prototype itself for \<open>__proto__\<close>), named
  by its key.
\<close>

datatype map_value = Filename string | Inherited string

text \<open>
  The result of \<open>CHORD_IMAGE_BASE + v\<close>: a string, or, for an inherited member, the
  base followed by the text the engine converts that member to (the text of a native
  function is the engine's own).
\<close>

datatype image_source = Url string | UrlOfMember string string

text \<open>The \<open>img\<close> element that \<open>renderChordImage\<close> creates.\<close>

record img =
  src :: image_source
  alt :: string

text \<open>
  The two DOM nodes the display writes: the text of \<open>currentChordSpan\<close> and the
  children of \<open>chordImageContainer\<close> (setting \<open>innerHTML = ""\<close> leaves no child).
\<close>

record display =
  currentChordSpan :: string
  chordImageContainer :: "img list"

definition CHORD_IMAGE_BASE :: string where
  "CHORD_IMAGE_BASE = ''/chords/''"

definition CHORD_IMAGE_TABLE :: "(string \<times> string) list" where
  "CHORD_IMAGE_TABLE =
     [(''A'', ''a-major-v1.png''),
      (''Am'', ''a-minor-v1.png''),
      (''Bm'', ''b-minor-v1.png''),
      (''C'', ''c-major-v1.png''),
      (''C7'', ''c-7th-v1.png''),
      (''D'', ''d-major-v1.png''),
      (''Dm'', ''d-minor-v1.png''),
      (''D7'', ''d-7th-v1.png''),
      (''E'', ''e-major-v1.png''),
      (''Em'', ''e-minor-v1.png''),
      (''F'', ''f-major-v1.png''),
      (''G'', ''g-major-v1.png''),
      (''G7'', ''g-7th-v1.png'')]"

text \<open>The object's own entries.\<close>

definition own_entry :: "string \<Rightarrow> string option" where
  "own_entry = map_of CHORD_IMAGE_TABLE"

text \<open>The keys every plain object inherits from \<open>Object.prototype\<close>.\<close>

definition OBJECT_PROTOTYPE_KEYS :: "string list" where
  "OBJECT_PROTOTYPE_KEYS =
     [''constructor'', ''hasOwnProperty'', ''isPrototypeOf'', ''propertyIsEnumerable'',
      ''toLocaleString'', ''toString'', ''valueOf'', ''__proto__'',
      ''__defineGetter__'', ''__defineSetter__'', ''__lookupGetter__'', ''__lookupSetter__'']"

text \<open>
  \<open>CHORD_IMAGE_MAP[label]\<close>: an own entry, else an inherited member, else \<open>undefined\<close>
  (\<open>None\<close>).
\<close>

definition CHORD_IMAGE_MAP :: "string \<Rightarrow> map_value option" where
  "CHORD_IMAGE_MAP lbl =
     (case own_entry lbl of
        Some filename \<Rightarrow> Some (Filename filename)
      | None \<Rightarrow> if lbl \<in> set OBJECT_PROTOTYPE_KEYS then Some (Inherited lbl) else None)"

text \<open>\<open>CHORD_IMAGE_BASE + v\<close>: \<open>undefined\<close> concatenates as the text \<open>undefined\<close>.\<close>

definition base_plus :: "map_value option \<Rightarrow> image_source" where
  "base_plus v =
     (case v of
        None \<Rightarrow> Url (CHORD_IMAGE_BASE @ ''undefined'')
      | Some (Filename filename) \<Rightarrow> Url (CHORD_IMAGE_BASE @ filename)
      | Some (Inherited m) \<Rightarrow> UrlOfMember CHORD_IMAGE_BASE m)"

text \<open>\<open>!v\<close> on the result of the lookup: \<open>undefined\<close> and the empty string are falsy.\<close>

definition falsy_value :: "map_value option \<Rightarrow> bool" where
  "falsy_value v = (v = None \<or> v = Some (Filename []))"

text \<open>The character U+2014 that the display shows when there is no chord, in UTF-8.\<close>

definition EM_DASH :: string where
  "EM_DASH = [CHR 0xE2, CHR 0x80, CHR 0x94]"

text \<open>\<open>renderChordImage(label)\<close>: the container is emptied, then holds an image unless
  the lookup of the label is falsy.\<close>

definition renderChordImage :: "string \<Rightarrow> 'a display_scheme \<Rightarrow> 'a display_scheme" where
  "renderChordImage lbl d =
     (let d' = d\<lparr>chordImageContainer := []\<rparr>;
          filename = CHORD_IMAGE_MAP lbl
      in if falsy_value filename then d'
         else d'\<lparr>chordImageContainer :=
                  chordImageContainer d' @ [\<lparr>src = base_plus filename, alt = lbl\<rparr>]\<rparr>)"

text \<open>\<open>setCurrentChordDisplay(chord)\<close>.\<close>

definition setCurrentChordDisplay ::
  "interval js_ref \<Rightarrow> 'a display_scheme \<Rightarrow> 'a display_scheme" where
  "setCurrentChordDisplay chord d =
     (case chord of
        JsObject c \<Rightarrow> renderChordImage (label c) (d\<lparr>currentChordSpan := label c\<rparr>)
      | _ \<Rightarrow> d\<lparr>currentChordSpan := EM_DASH, chordImageContainer := []\<rparr>)"

text \<open>
  \<open>audioEl.ontimeupdate\<close>: the globals it reads, \<open>currentChords\<close> and
  \<open>audioEl.currentTime\<close>, are arguments.
\<close>

definition ontimeupdate ::
  "interval list \<Rightarrow> real \<Rightarrow> 'a display_scheme \<Rightarrow> 'a display_scheme" where
  "ontimeupdate currentChords currentTime d =
     setCurrentChordDisplay (getChordAtTime currentChords currentTime) d"


section \<open>JSON values\<close>

text \<open>
  A value produced by \<open>JSON.parse\<close>, or \<open>undefined\<close>. \<open>JObj\<close> lists the properties
  of an object, each name once.
\<close>

datatype jsval =
    JUndefined
  | JNull
  | JBool bool
  | JNum real
  | JStr string
  | JArr "jsval list"
  | JObj "(string \<times> jsval) list"

text \<open>Truthiness, as \<open>!v\<close> and \<open>v || w\<close> test it.\<close>

fun truthy :: "jsval \<Rightarrow> bool" where
  "truthy JUndefined = False"
| "truthy JNull = False"
| "truthy (JBool b) = b"
| "truthy (JNum x) = (x \<noteq> 0)"
| "truthy (JStr s) = (s \<noteq> [])"
| "truthy (JArr _) = True"
| "truthy (JObj _) = True"

definition or_js :: "jsval \<Rightarrow> jsval \<Rightarrow> jsval" where
  "or_js a b = (if truthy a then a else b)"

text \<open>
  The exceptions of the model. A \<open>TypeError\<close> is raised by the engine: reading a property
  of \<open>undefined\<close> or \<open>null\<close>, calling a member that is not a function, or converting
  to a string or number an object that has no primitive value. \<open>Thrown\<close> is an error
  raised by an operation of the environment, with its message.
\<close>

datatype type_error = ReadOfNullish jsval string | NotAFunction string | NoPrimitive jsval

datatype js_error = TypeError type_error | Thrown string

text \<open>
  \<open>v.k\<close> for the property names the program reads (\<open>chords\<close>, \<open>startSec\<close>, \<open>endSec\<close>,
  \<open>label\<close>, \<open>filename\<close>, \<open>mimetype\<close>, \<open>data\<close>): none of them is a built-in property
  of a string, number, boolean or array, or inherited by an object.
\<close>

fun prop_get :: "jsval \<Rightarrow> string \<Rightarrow> js_error + jsval" where
  "prop_get JUndefined k = Inl (TypeError (ReadOfNullish JUndefined k))"
| "prop_get JNull k = Inl (TypeError (ReadOfNullish JNull k))"
| "prop_get (JObj kvs) k = Inr (case map_of kvs k of Some v \<Rightarrow> v | None \<Rightarrow> JUndefined)"
| "prop_get _ k = Inr JUndefined"

text \<open>
  The receiver of \<open>chords.forEach(...)\<close> and \<open>chords.map(...)\<close>: the elements of an
  array; any other value has no such function (JSON holds no function).
\<close>

fun array_method :: "jsval \<Rightarrow> string \<Rightarrow> js_error + jsval list" where
  "array_method (JArr xs) m = Inr xs"
| "array_method JUndefined m = Inl (TypeError (ReadOfNullish JUndefined m))"
| "array_method JNull m = Inl (TypeError (ReadOfNullish JNull m))"
| "array_method _ m = Inl (TypeError (NotAFunction m))"

text \<open>
  Whether the conversion of a value to a string or to a number throws. A primitive
  converts. A parsed object is converted through \<open>valueOf\<close> and \<open>toString\<close>: an own
  member of either name is no function (JSON holds none) and is passed over, the inherited
  \<open>valueOf\<close> returns the object itself, and the inherited \<open>toString\<close> returns a string;
  so the conversion throws exactly when the object has an own member \<open>toString\<close>. A
  parsed array is converted by \<open>join\<close>, which converts every element but \<open>null\<close> and
  \<open>undefined\<close> to a string. Both orders of the two methods (string first, number first)
  throw on the same values. Nesting so deep that the engine runs out of stack is outside
  the model.
\<close>

fun no_primitive :: "jsval \<Rightarrow> bool" where
  "no_primitive (JObj kvs) = (map_of kvs ''toString'' \<noteq> None)"
| "no_primitive (JArr xs) = list_ex no_primitive xs"
| "no_primitive _ = False"

text \<open>
  The conversion of a value where the program needs a string or a number (arithmetic, a
  template literal, an assignment to \<open>textContent\<close>). The text or number that results is
  not modelled: the value is kept.
\<close>

definition to_primitive :: "jsval \<Rightarrow> js_error + jsval" where
  "to_primitive v = (if no_primitive v then Inl (TypeError (NoPrimitive v)) else Inr v)"

text \<open>A callback run over the elements in order; the first exception ends the loop.\<close>

fun map_err :: "('a \<Rightarrow> js_error + 'b) \<Rightarrow> 'a list \<Rightarrow> js_error + 'b list" where
  "map_err f [] = Inr []"
| "map_err f (x # xs) =
     (case f x of
        Inl e \<Rightarrow> Inl e
      | Inr y \<Rightarrow> (case map_err f xs of Inl e \<Rightarrow> Inl e | Inr ys \<Rightarrow> Inr (y # ys)))"

text \<open>
  \<open>[...new Set(xs)]\<close>: each value is added unless an equal one is already in the set, and
  the set keeps insertion order. \<open>eq\<close> is the set's equality (SameValueZero).
\<close>

fun set_add_all :: "('a \<Rightarrow> 'a \<Rightarrow> bool) \<Rightarrow> 'a list \<Rightarrow> 'a list \<Rightarrow> 'a list" where
  "set_add_all eq seen [] = seen"
| "set_add_all eq seen (x # xs) =
     set_add_all eq (if list_ex (\<lambda>s. eq s x) seen then seen else seen @ [x]) xs"

text \<open>
  SameValueZero on parsed JSON: primitives are equal by value; two parsed arrays or objects
  are never the same reference.
\<close>

fun same_value_zero :: "jsval \<Rightarrow> jsval \<Rightarrow> bool" where
  "same_value_zero (JArr _) _ = False"
| "same_value_zero (JObj _) _ = False"
| "same_value_zero a b = (a = b)"


section \<open>The relay endpoint\<close>

type_synonym bytes = "nat list"

text \<open>The \<open>Blob\<close> and the \<open>FormData\<close> entry the handler builds.\<close>

record blob =
  parts :: bytes
  blob_type :: jsval

record form_entry =
  field :: string
  payload :: blob
  filename :: jsval

type_synonym form_data = "form_entry list"

text \<open>
  A \<open>Response\<close> of \<open>fetch\<close>: its \<open>ok\<close> flag and what \<open>text()\<close> and \<open>json()\<close> resolve
  to or reject with.
\<close>

record response =
  ok :: bool
  body_text :: "js_error + string"
  body_json :: "js_error + jsval"

text \<open>The request as the handler reads it: \<open>req.method\<close> and the parsed \<open>req.body\<close>.\<close>

record request =
  req_method :: string
  req_body :: jsval

text \<open>What the handler sends with \<open>res.status(n).json(v)\<close>.\<close>

record reply =
  status :: nat
  sent :: jsval

text \<open>
  The handler's environment: \<open>Buffer.from(data, "base64")\<close>, \<open>fetch\<close>, and the wording
  of the message of an engine-raised \<open>TypeError\<close>.
\<close>

record env =
  bufferFrom :: "jsval \<Rightarrow> js_error + bytes"
  fetch :: "string \<Rightarrow> form_data \<Rightarrow> js_error + response"
  wording :: "type_error \<Rightarrow> string"

text \<open>
  The route configuration, \<open>config.api.bodyParser.sizeLimit\<close>. The body parser that
  reads it belongs to the hosting framework and is not part of the model.
\<close>

definition config_sizeLimit :: string where
  "config_sizeLimit = ''25mb''"

definition PYTHON_URL :: string where
  "PYTHON_URL = ''https://tracktotab-proto3-production.up.railway.app/chords''"

text \<open>\<open>err.message\<close>.\<close>

fun message :: "env \<Rightarrow> js_error \<Rightarrow> string" where
  "message e (Thrown m) = m"
| "message e (TypeError c) = wording e c"

text \<open>\<open>const { filename, mimetype, data } = req.body\<close>.\<close>

definition destructure :: "jsval \<Rightarrow> js_error + (jsval \<times> jsval \<times> jsval)" where
  "destructure b =
     (case prop_get b ''filename'' of
        Inl e \<Rightarrow> Inl e
      | Inr fname \<Rightarrow>
          (case prop_get b ''mimetype'' of
             Inl e \<Rightarrow> Inl e
           | Inr mimetype \<Rightarrow>
               (case prop_get b ''data'' of
                  Inl e \<Rightarrow> Inl e
                | Inr data \<Rightarrow> Inr (fname, mimetype, data))))"

text \<open>
  The multipart payload: one entry \<open>file\<close> holding the decoded audio. The entry keeps
  the values the handler hands to \<open>Blob\<close> and to \<open>append\<close> as its type and filename;
  what the two constructors make of them (a lower-cased string for the type) is theirs and
  is not modelled.
\<close>

definition upload_form :: "bytes \<Rightarrow> jsval \<Rightarrow> jsval \<Rightarrow> form_data" where
  "upload_form audioBuffer fname mimetype =
     [\<lparr>field = ''file'',
       payload = \<lparr>parts = audioBuffer, blob_type = or_js mimetype (JStr ''audio/wav'')\<rparr>,
       filename = or_js fname (JStr ''audio.wav'')\<rparr>]"

text \<open>
  The body of the handler's \<open>try\<close> block: the reply it returns or the exception it throws,
  with the list of forwarding \<open>fetch\<close> calls made on the way.
\<close>

definition handler_try ::
  "env \<Rightarrow> request \<Rightarrow> (js_error + reply) \<times> (string \<times> form_data) list" where
  "handler_try e req =
     (case destructure (req_body req) of
        Inl err \<Rightarrow> (Inl err, [])
      | Inr (fname, mimetype, data) \<Rightarrow>
          if \<not> truthy data then
            (Inr \<lparr>status = 400, sent = JObj [(''error'', JStr ''Missing audio data'')]\<rparr>, [])
          else
            (case bufferFrom e data of
               Inl err \<Rightarrow> (Inl err, [])
             | Inr audioBuffer \<Rightarrow>
                 (let formData = upload_form audioBuffer fname mimetype;
                      calls = [(PYTHON_URL, formData)]
                  in case fetch e PYTHON_URL formData of
                       Inl err \<Rightarrow> (Inl err, calls)
                     | Inr pythonResponse \<Rightarrow>
                         if \<not> ok pythonResponse then
                           (case body_text pythonResponse of
                              Inl err \<Rightarrow> (Inl err, calls)
                            | Inr txt \<Rightarrow>
                                (Inr \<lparr>status = 500,
                                      sent = JObj [(''error'', JStr ''Python service failed''),
                                                   (''details'', JStr txt)]\<rparr>, calls))
                         else
                           (case body_json pythonResponse of
                              Inl err \<Rightarrow> (Inl err, calls)
                            | Inr result \<Rightarrow> (Inr \<lparr>status = 200, sent = result\<rparr>, calls)))))"

text \<open>The reply of the \<open>catch\<close> block.\<close>

definition catch_reply :: "env \<Rightarrow> js_error \<Rightarrow> reply" where
  "catch_reply e err =
     \<lparr>status = 500,
      sent = JObj [(''error'', JStr ''Server error''), (''details'', JStr (message e err))]\<rparr>"

text \<open>The exported \<open>handler(req, res)\<close>: the reply sent and the forwarding calls made.\<close>

definition handler :: "env \<Rightarrow> request \<Rightarrow> reply \<times> (string \<times> form_data) list" where
  "handler e req =
     (if req_method req \<noteq> ''POST'' then
        (\<lparr>status = 405, sent = JObj [(''error'', JStr ''Method not allowed'')]\<rparr>, [])
      else
        (case handler_try e req of
           (Inr r, calls) \<Rightarrow> (r, calls)
         | (Inl err, calls) \<Rightarrow> (catch_reply e err, calls)))"


section \<open>Upload handling in the page\<close>

text \<open>
  A rendered list item: the three values \<open>renderChords\<close> interpolates into its text
  (\<open>c.startSec\<close> and \<open>c.endSec\<close> through \<open>formatTime\<close>, then \<open>c.label\<close>). The
  text they make is not modelled; that each of them must convert to a number or a string
  is.
\<close>

type_synonym li = "jsval \<times> jsval \<times> jsval"

text \<open>
  The page state \<open>handleFile\<close> writes, on top of the chord display: the text of
  \<open>statusDiv\<close>, the global \<open>currentChords\<close>, the \<open>ul\<close> children of \<open>chordsContainer\<close>,
  the tags of \<open>chordTagsDiv\<close> (each the label it shows), the text of \<open>summaryText\<close>,
  \<open>downloadBtn.disabled\<close>, the global \<open>lastAudioUrl\<close> and \<open>audioEl.src\<close>.
\<close>

record page = display +
  statusDiv :: string
  currentChords :: jsval
  chordsContainer :: "li list list"
  chordTagsDiv :: "jsval list"
  summaryText :: string
  downloadBtn_disabled :: bool
  lastAudioUrl :: "string option"
  audioEl_src :: string

text \<open>The file the user chose: \<open>file.name\<close>, \<open>file.type\<close> and the base64 text of its
  bytes, \<open>arrayBufferToBase64(await file.arrayBuffer())\<close>.\<close>

record upload_file =
  file_name :: string
  file_type :: string
  file_base64 :: string

text \<open>The character U+2026 of the status text, in UTF-8.\<close>

definition ELLIPSIS :: string where
  "ELLIPSIS = [CHR 0xE2, CHR 0x80, CHR 0xA6]"

text \<open>Decimal digits of a number, as a template literal prints \<open>unique.length\<close>.\<close>

function string_of_nat :: "nat \<Rightarrow> string" where
  "string_of_nat n =
     (if n < 10 then [char_of (48 + n)]
      else string_of_nat (n div 10) @ [char_of (48 + n mod 10)])"
  by pat_completeness auto
termination
  by (relation "measure (\<lambda>n. n)") auto

declare string_of_nat.simps [simp del]

text \<open>
  \<open>formatTime(t)\<close>: \<open>t / 60\<close> and \<open>t % 60\<close> convert \<open>t\<close> to a number; the rest
  (\<open>Math.floor\<close>, \<open>toFixed\<close>, \<open>padStart\<close>, the template literal) works on numbers and
  strings and does not throw.
\<close>

definition formatTime :: "jsval \<Rightarrow> js_error + jsval" where
  "formatTime t = to_primitive t"

text \<open>
  One list item of \<open>renderChords\<close>. Its text is a template literal of the three
  expressions \<open>formatTime(c.startSec)\<close>, \<open>formatTime(c.endSec)\<close> and \<open>c.label\<close>,
  each evaluated and converted to a string, from left to right.
\<close>

definition li_of :: "jsval \<Rightarrow> js_error + li" where
  "li_of c =
     (case prop_get c ''startSec'' of
        Inl e \<Rightarrow> Inl e
      | Inr s \<Rightarrow>
          (case formatTime s of
             Inl e \<Rightarrow> Inl e
           | Inr s' \<Rightarrow>
               (case prop_get c ''endSec'' of
                  Inl e \<Rightarrow> Inl e
                | Inr en \<Rightarrow>
                    (case formatTime en of
                       Inl e \<Rightarrow> Inl e
                     | Inr en' \<Rightarrow>
                         (case prop_get c ''label'' of
                            Inl e \<Rightarrow> Inl e
                          | Inr l \<Rightarrow>
                              (case to_primitive l of
                                 Inl e \<Rightarrow> Inl e
                               | Inr l' \<Rightarrow> Inr (s', en', l')))))))"

text \<open>
  \<open>renderChords(chords)\<close>: the \<open>ul\<close> is appended to the container after the loop, so an
  exception in the loop leaves the page as it was.
\<close>

definition renderChords :: "jsval \<Rightarrow> 'a page_scheme \<Rightarrow> js_error + 'a page_scheme" where
  "renderChords chords p =
     (case array_method chords ''forEach'' of
        Inl e \<Rightarrow> Inl e
      | Inr cs \<Rightarrow>
          (case map_err li_of cs of
             Inl e \<Rightarrow> Inl e
           | Inr ul \<Rightarrow> Inr (p\<lparr>chordsContainer := chordsContainer p @ [ul]\<rparr>)))"

text \<open>
  The \<open>forEach\<close> of \<open>renderChordSummary\<close>: each tag is appended to \<open>chordTagsDiv\<close> once
  \<open>tag.textContent = label\<close> has converted the label to a string (\<open>null\<close> and
  \<open>undefined\<close> set no text). An exception leaves the tags appended so far.
\<close>

fun add_tags :: "jsval list \<Rightarrow> 'a page_scheme \<Rightarrow> 'a page_scheme \<times> js_error option" where
  "add_tags [] p = (p, None)"
| "add_tags (l # ls) p =
     (case to_primitive l of
        Inl e \<Rightarrow> (p, Some e)
      | Inr l' \<Rightarrow> add_tags ls (p\<lparr>chordTagsDiv := chordTagsDiv p @ [l']\<rparr>))"

text \<open>
  \<open>renderChordSummary(chords)\<close>: the page it leaves, and the exception it ends with, if
  any.
\<close>

definition renderChordSummary ::
  "jsval \<Rightarrow> 'a page_scheme \<Rightarrow> 'a page_scheme \<times> js_error option" where
  "renderChordSummary chords p =
     (case array_method chords ''map'' of
        Inl e \<Rightarrow> (p, Some e)
      | Inr cs \<Rightarrow>
          (case map_err (\<lambda>c. prop_get c ''label'') cs of
             Inl e \<Rightarrow> (p, Some e)
           | Inr labels \<Rightarrow>
               (let unique = set_add_all same_value_zero [] labels
                in add_tags unique
                     (p\<lparr>summaryText :=
                          ''This track uses '' @ string_of_nat (length unique) @ '' chords:''\<rparr>))))"

definition API_URL :: string where
  "API_URL = ''/api/analyze''"

text \<open>The request \<open>handleFile\<close> posts to \<open>API_URL\<close>.\<close>

definition upload_request :: "upload_file \<Rightarrow> request" where
  "upload_request f =
     \<lparr>req_method = ''POST'',
      req_body = JObj [(''filename'', JStr (file_name f)),
                       (''mimetype'', JStr (file_type f)),
                       (''data'', JStr (file_base64 f))]\<rparr>"

text \<open>
  \<open>handleFile(file)\<close>. \<open>api\<close> is \<open>fetch\<close> to \<open>API_URL\<close>: the response the request gets,
  or the exception of a failed fetch. \<open>objectUrl\<close> is what \<open>URL.createObjectURL(file)\<close>
  returns. Reading the file's bytes is taken to succeed (\<open>file_base64\<close>). The result is
  the page when the function ends, and the exception it ends with, if any (the promise it
  returns is then rejected, and nothing catches it).
\<close>

definition handleFile ::
  "(string \<Rightarrow> request \<Rightarrow> js_error + response) \<Rightarrow> string \<Rightarrow> upload_file \<Rightarrow>
     'a page_scheme \<Rightarrow> 'a page_scheme \<times> js_error option" where
  "handleFile api objectUrl f p =
     (let p1 = setCurrentChordDisplay JsNull
                 (p\<lparr>statusDiv := ''Analyzing chords'' @ ELLIPSIS, currentChords := JArr []\<rparr>);
          p2 = p1\<lparr>chordsContainer := [], chordTagsDiv := [], summaryText := [],
                  downloadBtn_disabled := True,
                  lastAudioUrl := Some objectUrl, audioEl_src := objectUrl\<rparr>
      in case api API_URL (upload_request f) of
           Inl e \<Rightarrow> (p2, Some e)
         | Inr res \<Rightarrow>
             (case body_json res of
                Inl e \<Rightarrow> (p2, Some e)
              | Inr result \<Rightarrow>
                  (case prop_get result ''chords'' of
                     Inl e \<Rightarrow> (p2, Some e)
                   | Inr chords \<Rightarrow>
                       (let p3 = p2\<lparr>currentChords := or_js chords (JArr [])\<rparr>
                        in case renderChords (currentChords p3) p3 of
                             Inl e \<Rightarrow> (p3, Some e)
                           | Inr p4 \<Rightarrow>
                               (case renderChordSummary (currentChords p4) p4 of
                                  (p5, Some e) \<Rightarrow> (p5, Some e)
                                | (p5, None) \<Rightarrow>
                                    (p5\<lparr>statusDiv := ''Chords detected.'',
                                        downloadBtn_disabled := False\<rparr>, None))))))"

text \<open>
  The member \<open>k\<close> of a value that is not \<open>null\<close> or \<open>undefined\<close>, \<open>undefined\<close> when
  it has none.
\<close>

definition member_of :: "jsval \<Rightarrow> string \<Rightarrow> jsval" where
  "member_of v k = (case prop_get v k of Inl e \<Rightarrow> JUndefined | Inr c \<Rightarrow> c)"

text \<open>
  What the page needs of a response body to get through \<open>handleFile\<close>: it is not \<open>null\<close>,
  and its \<open>chords\<close> member is falsy (absent included) or an array of chords that can be
  rendered. A chord can be rendered when it is not \<open>null\<close> and its \<open>startSec\<close>,
  \<open>endSec\<close> and \<open>label\<close> have a primitive value: none of them is an object with an own
  member \<open>toString\<close>, or an array that holds one.
\<close>

definition renderable_chord :: "jsval \<Rightarrow> bool" where
  "renderable_chord c =
     (c \<noteq> JNull \<and> c \<noteq> JUndefined
      \<and> \<not> no_primitive (member_of c ''startSec'')
      \<and> \<not> no_primitive (member_of c ''endSec'')
      \<and> \<not> no_primitive (member_of c ''label''))"

fun renderable :: "jsval \<Rightarrow> bool" where
  "renderable (JArr cs) = list_all renderable_chord cs"
| "renderable v = (\<not> truthy v)"

definition chords_of :: "jsval \<Rightarrow> jsval" where
  "chords_of result = member_of result ''chords''"

definition acceptable :: "jsval \<Rightarrow> bool" where
  "acceptable result =
     (result \<noteq> JNull \<and> result \<noteq> JUndefined \<and> renderable (chords_of result))"

text \<open>A timeline as the backend's JSON.\<close>

definition interval_json :: "interval \<Rightarrow> jsval" where
  "interval_json c =
     JObj [(''startSec'', JNum (startSec c)), (''endSec'', JNum (endSec c)),
           (''label'', JStr (label c))]"

definition timeline_json :: "interval list \<Rightarrow> jsval" where
  "timeline_json cs = JObj [(''chords'', JArr (map interval_json cs))]"


section \<open>The chord-sheet export\<close>

text \<open>
  The calls on the \<open>jsPDF\<close> document, in order. The library is taken to carry out each
  call; the model records them.
\<close>

datatype pdf_op =
    SetFontSize nat
  | Text string int int
  | AddImage image_source string int int int int
  | Save string

text \<open>
  \<open>loadImage(src)\<close>: the promise resolves with the image when its \<open>onload\<close> fires and
  is never settled otherwise (there is no \<open>onerror\<close>). \<open>loads\<close> says for which sources
  the browser fires \<open>onload\<close>; \<open>None\<close> is the promise that stays pending. An image is
  identified by its source.
\<close>

definition loadImage :: "(image_source \<Rightarrow> bool) \<Rightarrow> image_source \<Rightarrow> image_source option" where
  "loadImage loads s = (if loads s then Some s else None)"

text \<open>\<open>CHORD_IMAGE_BASE + CHORD_IMAGE_MAP[ch]\<close>, the source the export asks for.\<close>

definition image_src :: "string \<Rightarrow> image_source" where
  "image_src ch = base_plus (CHORD_IMAGE_MAP ch)"

text \<open>The characters U+2013 of the title and U+2022 of the list, in UTF-8.\<close>

definition EN_DASH :: string where
  "EN_DASH = [CHR 0xE2, CHR 0x80, CHR 0x93]"

definition BULLET :: string where
  "BULLET = [CHR 0xE2, CHR 0x80, CHR 0xA2]"

text \<open>The \<open>forEach\<close> that lists the chord names, from height \<open>y\<close>: the calls and the
  height after them.\<close>

fun list_names :: "string list \<Rightarrow> int \<Rightarrow> pdf_op list \<times> int" where
  "list_names [] y = ([], y)"
| "list_names (ch # rest) y =
     (case list_names rest (y + 6) of
        (ops, y') \<Rightarrow> (Text (BULLET @ '' '' @ ch) 20 y # ops, y'))"

text \<open>
  The \<open>for ... of\<close> loop that adds the diagrams, from height \<open>y\<close>: it waits for each
  image, so it gets no further than the first image that does not load.
\<close>

fun add_diagrams ::
  "(image_source \<Rightarrow> bool) \<Rightarrow> string list \<Rightarrow> int \<Rightarrow> pdf_op list option" where
  "add_diagrams loads [] y = Some []"
| "add_diagrams loads (ch # rest) y =
     (case loadImage loads (image_src ch) of
        None \<Rightarrow> None
      | Some picture \<Rightarrow>
          (case add_diagrams loads rest (y + 4 + 60) of
             None \<Rightarrow> None
           | Some ops \<Rightarrow> Some (Text ch 14 y # AddImage picture ''PNG'' 14 (y + 4) 40 50 # ops)))"

text \<open>
  \<open>downloadBtn.onclick\<close> on a timeline of well-formed intervals: the calls made on the
  document when the handler completes, \<open>None\<close> when it never does.
\<close>

definition onclick ::
  "(image_source \<Rightarrow> bool) \<Rightarrow> interval list \<Rightarrow> pdf_op list option" where
  "onclick loads chords =
     (let unique = set_add_all (=) [] (map label chords);
          header = [SetFontSize 18, Text (''Track2Tabs '' @ EN_DASH @ '' Chord Sheet'') 14 20,
                    SetFontSize 14, Text ''Chord Map'' 14 30]
      in case list_names unique (30 + 8) of
           (names, y) \<Rightarrow>
             (case add_diagrams loads unique (y + 10) of
                None \<Rightarrow> None
              | Some diagrams \<Rightarrow> Some (header @ names @ diagrams @ [Save ''track2tabs.pdf''])))"


section \<open>Properties of the lookup\<close>

lemma find_js_None: "(\<forall>x \<in> set xs. \<not> P x) \<Longrightarrow> find_js P xs = JsUndefined"
  by (induction xs) auto

lemma find_js_cases:
  "find_js P xs = JsUndefined \<or> (\<exists>x \<in> set xs. P x \<and> find_js P xs = JsObject x)"
  by (induction xs) auto

lemma at_js_last: "xs \<noteq> [] \<Longrightarrow> at_js xs (- 1) = JsObject (last xs)"
proof -
  assume ne: "xs \<noteq> []"
  then have len: "0 < length xs" by simp
  have idx: "nat (int (length xs) - 1) = length xs - Suc 0"
    using len by linarith
  show ?thesis
    using len by (simp add: at_js_def Let_def idx last_conv_nth [OF ne])
qed

lemma at_js_Nil: "at_js [] (- 1) = JsUndefined"
  by (simp add: at_js_def)

lemma getChordAtTime_found:
  "find_js (\<lambda>c. t \<ge> startSec c \<and> t < endSec c) cs = JsObject c \<Longrightarrow>
     getChordAtTime cs t = JsObject c"
  by (simp add: getChordAtTime_def or_ref_def)

lemma getChordAtTime_not_found:
  "find_js (\<lambda>c. t \<ge> startSec c \<and> t < endSec c) cs = JsUndefined \<Longrightarrow>
     getChordAtTime cs t = (if cs = [] then JsNull else JsObject (last cs))"
  by (simp add: getChordAtTime_def or_ref_def at_js_last at_js_Nil)

lemma ends_before_later_starts:
  "sorted_by_start (a # cs) \<Longrightarrow> non_overlapping (a # cs) \<Longrightarrow> i \<in> set cs \<Longrightarrow>
     endSec a \<le> startSec i"
  by (cases cs) (auto simp: sorted_by_start_def)

lemma find_js_containing:
  "sorted_by_start cs \<Longrightarrow> non_overlapping cs \<Longrightarrow> i \<in> set cs \<Longrightarrow>
     startSec i \<le> t \<Longrightarrow> t < endSec i \<Longrightarrow>
     find_js (\<lambda>c. t \<ge> startSec c \<and> t < endSec c) cs = JsObject i"
proof (induction cs)
  case Nil
  then show ?case by simp
next
  case (Cons a cs)
  show ?case
  proof (cases "i = a")
    case True
    with Cons.prems show ?thesis by simp
  next
    case False
    with Cons.prems have mem: "i \<in> set cs" by simp
    have "endSec a \<le> startSec i"
      using ends_before_later_starts [OF Cons.prems(1,2) mem] .
    with Cons.prems have out: "\<not> (t \<ge> startSec a \<and> t < endSec a)" by simp
    have s: "sorted_by_start cs"
      using Cons.prems(1) by (simp add: sorted_by_start_def)
    have n: "non_overlapping cs"
      using Cons.prems(2) by (cases cs) simp_all
    have "find_js (\<lambda>c. t \<ge> startSec c \<and> t < endSec c) cs = JsObject i"
      using Cons.IH [OF s n mem Cons.prems(4,5)] .
    with out show ?thesis by auto
  qed
qed

text \<open>Whatever the timeline, the lookup returns the first interval that contains the time.\<close>

lemma find_js_first:
  "\<forall>x \<in> set xs. \<not> P x \<Longrightarrow> P y \<Longrightarrow> find_js P (xs @ y # ys) = JsObject y"
  by (induction xs) auto

lemma lookup_returns_first_containing:
  "\<forall>c \<in> set before. \<not> contains_time c t \<Longrightarrow> contains_time i t \<Longrightarrow>
     getChordAtTime (before @ i # after) t = JsObject i"
  by (rule getChordAtTime_found) (simp add: find_js_first contains_time_def)

text \<open>
  Claim C1, as amended. In a timeline that is sorted by \<open>startSec\<close> and in which each
  interval ends no later than the next one starts, the lookup at a time \<open>t\<close> inside the
  interval \<open>i\<close> of the timeline, \<open>i.startSec <= t < i.endSec\<close>, returns exactly \<open>i\<close>.
\<close>

theorem containment_lookup:
  "sorted_by_start cs \<Longrightarrow> non_overlapping cs \<Longrightarrow> i \<in> set cs \<Longrightarrow>
     contains_time i t \<Longrightarrow> getChordAtTime cs t = JsObject i"
  by (rule getChordAtTime_found) (simp add: find_js_containing contains_time_def)

theorem containment_lookup_witness:
  "sorted_by_start [\<lparr>startSec = 0, endSec = 2, label = ''C''\<rparr>, \<lparr>startSec = 2, endSec = 4, label = ''G''\<rparr>]
   \<and> non_overlapping [\<lparr>startSec = 0, endSec = 2, label = ''C''\<rparr>, \<lparr>startSec = 2, endSec = 4, label = ''G''\<rparr>]
   \<and> contains_time \<lparr>startSec = 2, endSec = 4, label = ''G''\<rparr> 3.9
   \<and> getChordAtTime [\<lparr>startSec = 0, endSec = 2, label = ''C''\<rparr>, \<lparr>startSec = 2, endSec = 4, label = ''G''\<rparr>] 3.9
       = JsObject \<lparr>startSec = 2, endSec = 4, label = ''G''\<rparr>"
proof -
  let ?c = "\<lparr>startSec = 0, endSec = 2, label = ''C''\<rparr>"
  let ?g = "\<lparr>startSec = 2, endSec = 4, label = ''G''\<rparr>"
  have s: "sorted_by_start [?c, ?g]" by (simp add: sorted_by_start_def)
  have n: "non_overlapping [?c, ?g]" by simp
  have m: "?g \<in> set [?c, ?g]" by simp
  have c: "contains_time ?g 3.9" by (simp add: contains_time_def)
  show ?thesis using s n c containment_lookup [OF s n m c] by simp
qed

text \<open>
  Claim C1 as stated asks for sortedness by \<open>startSec\<close> only. The timeline
  \<open>[{0, 10, "C"}, {2, 4, "G"}]\<close> is sorted by \<open>startSec\<close>, the time 3 lies in
  \<open>{2, 4, "G"}\<close>, and the lookup returns \<open>{0, 10, "C"}\<close>: \<open>find\<close> returns the first
  interval that contains the time.
\<close>

theorem containment_sorted_only_counterexample:
  "[\<lparr>startSec = 0, endSec = 10, label = ''C''\<rparr>, \<lparr>startSec = 2, endSec = 4, label = ''G''\<rparr>] \<noteq> []
   \<and> sorted (map startSec [\<lparr>startSec = 0, endSec = 10, label = ''C''\<rparr>, \<lparr>startSec = 2, endSec = 4, label = ''G''\<rparr>])
   \<and> \<lparr>startSec = 2, endSec = 4, label = ''G''\<rparr>
        \<in> set [\<lparr>startSec = 0, endSec = 10, label = ''C''\<rparr>, \<lparr>startSec = 2, endSec = 4, label = ''G''\<rparr>]
   \<and> startSec \<lparr>startSec = 2, endSec = 4, label = ''G''\<rparr> \<le> (3::real)
   \<and> (3::real) < endSec \<lparr>startSec = 2, endSec = 4, label = ''G''\<rparr>
   \<and> getChordAtTime [\<lparr>startSec = 0, endSec = 10, label = ''C''\<rparr>, \<lparr>startSec = 2, endSec = 4, label = ''G''\<rparr>] 3
        = JsObject \<lparr>startSec = 0, endSec = 10, label = ''C''\<rparr>
   \<and> JsObject \<lparr>startSec = 0, endSec = 10, label = ''C''\<rparr>
        \<noteq> JsObject \<lparr>startSec = 2, endSec = 4, label = ''G''\<rparr>"
  by (simp add: getChordAtTime_def or_ref_def)

text \<open>
  Claim C2. In a non-empty timeline, the lookup at a time that no interval contains (past
  the last end, before the first start, or in a gap) returns the last interval of the
  sequence.
\<close>

theorem fallback_to_last:
  "cs \<noteq> [] \<Longrightarrow> \<forall>c \<in> set cs. \<not> contains_time c t \<Longrightarrow>
     getChordAtTime cs t = JsObject (last cs)"
proof -
  assume ne: "cs \<noteq> []" and none: "\<forall>c \<in> set cs. \<not> contains_time c t"
  from none have "\<forall>c \<in> set cs. \<not> (t \<ge> startSec c \<and> t < endSec c)"
    by (simp add: contains_time_def)
  then have "find_js (\<lambda>c. t \<ge> startSec c \<and> t < endSec c) cs = JsUndefined"
    by (rule find_js_None)
  then show ?thesis using ne by (simp add: getChordAtTime_not_found)
qed

theorem fallback_to_last_witness:
  "[\<lparr>startSec = 0, endSec = 2, label = ''C''\<rparr>, \<lparr>startSec = 2, endSec = 4, label = ''G''\<rparr>] \<noteq> []
   \<and> \<not> contains_time \<lparr>startSec = 0, endSec = 2, label = ''C''\<rparr> 10
   \<and> \<not> contains_time \<lparr>startSec = 2, endSec = 4, label = ''G''\<rparr> 10
   \<and> getChordAtTime [\<lparr>startSec = 0, endSec = 2, label = ''C''\<rparr>, \<lparr>startSec = 2, endSec = 4, label = ''G''\<rparr>] 10
       = JsObject \<lparr>startSec = 2, endSec = 4, label = ''G''\<rparr>"
proof -
  let ?cs = "[\<lparr>startSec = 0, endSec = 2, label = ''C''\<rparr>, \<lparr>startSec = 2, endSec = 4, label = ''G''\<rparr>]"
  have ne: "?cs \<noteq> []" by simp
  have none: "\<forall>c \<in> set ?cs. \<not> contains_time c 10" by (simp add: contains_time_def)
  show ?thesis using none fallback_to_last [OF ne none] by simp
qed

text \<open>
  Claim C3. On the empty timeline the lookup returns \<open>null\<close> at every time. The display
  of a \<open>null\<close> chord, and so a time update on the empty timeline, shows the placeholder
  and empties the chord image, whatever was displayed before.
\<close>

theorem empty_timeline_no_chord:
  "getChordAtTime [] t = JsNull
   \<and> setCurrentChordDisplay JsNull d = d\<lparr>currentChordSpan := EM_DASH, chordImageContainer := []\<rparr>
   \<and> ontimeupdate [] t d = d\<lparr>currentChordSpan := EM_DASH, chordImageContainer := []\<rparr>"
  by (simp add: getChordAtTime_def or_ref_def at_js_Nil ontimeupdate_def setCurrentChordDisplay_def)

text \<open>
  Claim C9. The lookup returns \<open>null\<close> or an interval of the timeline, never
  \<open>undefined\<close>, and it returns \<open>null\<close> exactly when the timeline is empty.
\<close>

theorem result_membership:
  "(getChordAtTime cs t = JsNull \<longleftrightarrow> cs = [])
   \<and> getChordAtTime cs t \<noteq> JsUndefined
   \<and> (\<forall>c. getChordAtTime cs t = JsObject c \<longrightarrow> c \<in> set cs)"
proof -
  let ?P = "\<lambda>c. t \<ge> startSec c \<and> t < endSec c"
  from find_js_cases [of ?P cs] show ?thesis
  proof
    assume u: "find_js ?P cs = JsUndefined"
    show ?thesis
      using getChordAtTime_not_found [OF u] by (cases "cs = []") auto
  next
    assume "\<exists>x \<in> set cs. ?P x \<and> find_js ?P cs = JsObject x"
    then obtain x where x: "x \<in> set cs" and f: "find_js ?P cs = JsObject x" by blast
    from x have "cs \<noteq> []" by auto
    with x show ?thesis by (simp add: getChordAtTime_found [OF f])
  qed
qed

theorem result_membership_witness:
  "getChordAtTime [\<lparr>startSec = 0, endSec = 2, label = ''C''\<rparr>] 5 = JsObject \<lparr>startSec = 0, endSec = 2, label = ''C''\<rparr>
   \<and> \<lparr>startSec = 0, endSec = 2, label = ''C''\<rparr> \<in> set [\<lparr>startSec = 0, endSec = 2, label = ''C''\<rparr>]
   \<and> getChordAtTime [] 5 = JsNull"
proof -
  let ?c = "\<lparr>startSec = 0, endSec = 2, label = ''C''\<rparr>"
  have v: "getChordAtTime [?c] 5 = JsObject ?c"
    by (simp add: getChordAtTime_def or_ref_def at_js_def)
  have n: "getChordAtTime [] 5 = JsNull"
    using result_membership [of "[]" 5] by simp
  from result_membership [of "[?c]" 5] v have "?c \<in> set [?c]" by blast
  with v n show ?thesis by simp
qed


section \<open>Properties of the relay endpoint\<close>

text \<open>
  The two validations: a method other than POST gets 405, a POST whose body can be
  destructured and holds no truthy \<open>data\<close> gets 400, and neither contacts the backend.
\<close>

lemma handler_not_post:
  "req_method req \<noteq> ''POST'' \<Longrightarrow>
     handler e req = (\<lparr>status = 405, sent = JObj [(''error'', JStr ''Method not allowed'')]\<rparr>, [])"
  by (simp add: handler_def)

lemma handler_missing_data:
  "req_method req = ''POST'' \<Longrightarrow> destructure (req_body req) = Inr (fname, mimetype, data) \<Longrightarrow>
     \<not> truthy data \<Longrightarrow>
     handler e req = (\<lparr>status = 400, sent = JObj [(''error'', JStr ''Missing audio data'')]\<rparr>, [])"
  by (simp add: handler_def handler_try_def)

lemma destructure_nullish:
  "b = JNull \<or> b = JUndefined \<Longrightarrow> destructure b = Inl (TypeError (ReadOfNullish b ''filename''))"
  by (auto simp: destructure_def)

lemma destructure_defined:
  "b \<noteq> JNull \<Longrightarrow> b \<noteq> JUndefined \<Longrightarrow> \<exists>fname mimetype data. destructure b = Inr (fname, mimetype, data)"
  by (cases b) (auto simp: destructure_def)





lemma handler_success:
  "req_method req = ''POST'' \<Longrightarrow> destructure (req_body req) = Inr (fname, mimetype, data) \<Longrightarrow>
     truthy data \<Longrightarrow> bufferFrom e data = Inr buf \<Longrightarrow>
     fetch e PYTHON_URL (upload_form buf fname mimetype) = Inr resp \<Longrightarrow>
     ok resp \<Longrightarrow> body_json resp = Inr result \<Longrightarrow>
     handler e req = (\<lparr>status = 200, sent = result\<rparr>, [(PYTHON_URL, upload_form buf fname mimetype)])"
  by (simp add: handler_def handler_try_def)

text \<open>
  Claim C4. When the request is forwarded and the detection backend answers with a
  non-success status and a body that reads \<open>txt\<close>, the handler replies with status 500 and
  the body \<open>{ error: "Python service failed", details: txt }\<close>: the upstream text
  unmodified.
\<close>

theorem upstream_failure_surfaced:
  "req_method req = ''POST'' \<Longrightarrow> destructure (req_body req) = Inr (fname, mimetype, data) \<Longrightarrow>
     truthy data \<Longrightarrow> bufferFrom e data = Inr buf \<Longrightarrow>
     fetch e PYTHON_URL (upload_form buf fname mimetype) = Inr resp \<Longrightarrow>
     \<not> ok resp \<Longrightarrow> body_text resp = Inr txt \<Longrightarrow>
     fst (handler e req) =
       \<lparr>status = 500,
        sent = JObj [(''error'', JStr ''Python service failed''), (''details'', JStr txt)]\<rparr>"
  by (simp add: handler_def handler_try_def)

theorem upstream_failure_surfaced_witness:
  "(let e = \<lparr>bufferFrom = (\<lambda>d. Inr [0, 1, 2]),
              fetch = (\<lambda>u b. Inr \<lparr>ok = False, body_text = Inr ''upstream said no'',
                                    body_json = Inl (Thrown ''Unexpected token'')\<rparr>),
              wording = (\<lambda>c. ''TypeError'')\<rparr>;
        req = \<lparr>req_method = ''POST'',
               req_body = JObj [(''filename'', JStr ''a.wav''), (''mimetype'', JStr ''audio/wav''),
                                (''data'', JStr ''AAEC'')]\<rparr>
    in truthy (JStr ''AAEC'')
       \<and> fst (handler e req) =
            \<lparr>status = 500,
             sent = JObj [(''error'', JStr ''Python service failed''),
                          (''details'', JStr ''upstream said no'')]\<rparr>)"
proof -
  let ?resp = "\<lparr>ok = False, body_text = Inr ''upstream said no'',
                 body_json = Inl (Thrown ''Unexpected token'')\<rparr>"
  let ?e = "\<lparr>bufferFrom = (\<lambda>d. Inr [0, 1, 2]), fetch = (\<lambda>u b. Inr ?resp),
              wording = (\<lambda>c. ''TypeError'')\<rparr>"
  let ?req = "\<lparr>req_method = ''POST'',
               req_body = JObj [(''filename'', JStr ''a.wav''), (''mimetype'', JStr ''audio/wav''),
                                (''data'', JStr ''AAEC'')]\<rparr>"
  have m: "req_method ?req = ''POST''" by simp
  have d: "destructure (req_body ?req) = Inr (JStr ''a.wav'', JStr ''audio/wav'', JStr ''AAEC'')"
    by (simp add: destructure_def)
  have t: "truthy (JStr ''AAEC'')" by simp
  have b: "bufferFrom ?e (JStr ''AAEC'') = Inr [0, 1, 2]" by simp
  have f: "fetch ?e PYTHON_URL (upload_form [0, 1, 2] (JStr ''a.wav'') (JStr ''audio/wav'')) = Inr ?resp"
    by simp
  have n: "\<not> ok ?resp" by simp
  have x: "body_text ?resp = Inr ''upstream said no''" by simp
  show ?thesis
    using t upstream_failure_surfaced [OF m d t b f n x] by (simp add: Let_def)
qed


lemma handler_error_body:
  "status (fst (handler e req)) \<noteq> 200 \<Longrightarrow>
     \<exists>msg rest. sent (fst (handler e req)) = JObj ((''error'', JStr msg) # rest)"
  by (auto simp: handler_def handler_try_def catch_reply_def Let_def
           split: sum.splits prod.splits if_splits)

text \<open>
  Claim C5 at a request the handler can receive: a POST whose parsed body is \<open>null\<close>
  lacks the \<open>data\<close> field, and the reply is 500 "Server error" instead of 400, since the
  destructuring of \<open>req.body\<close> throws before the check of \<open>data\<close> is reached. No
  forwarding fetch is made.
\<close>

theorem null_body_is_server_error:
  "handler e \<lparr>req_method = ''POST'', req_body = JNull\<rparr> =
     (\<lparr>status = 500,
       sent = JObj [(''error'', JStr ''Server error''),
                    (''details'', JStr (wording e (ReadOfNullish JNull ''filename'')))]\<rparr>, [])"
  by (simp add: handler_def handler_try_def destructure_def catch_reply_def)

lemma handler_try_exception_caught:
  "req_method req = ''POST'' \<Longrightarrow> handler_try e req = (Inl err, calls) \<Longrightarrow>
     handler e req = (catch_reply e err, calls)"
  by (simp add: handler_def)




section \<open>Properties of the upload handling\<close>

lemma prop_get_member_of:
  "v \<noteq> JNull \<Longrightarrow> v \<noteq> JUndefined \<Longrightarrow> prop_get v k = Inr (member_of v k)"
  by (cases v) (auto simp: member_of_def)

lemma prop_get_nullish:
  "v = JNull \<or> v = JUndefined \<Longrightarrow> \<exists>e. prop_get v k = Inl e"
  by auto

text \<open>
  A chord that can be rendered gives its list item; any other element of the array makes
  \<open>renderChords\<close> throw.
\<close>

lemma li_of_renderable:
  "renderable_chord c \<Longrightarrow>
     li_of c = Inr (member_of c ''startSec'', member_of c ''endSec'', member_of c ''label'')"
  by (simp add: renderable_chord_def li_of_def prop_get_member_of formatTime_def to_primitive_def)

lemma li_of_not_renderable:
  "\<not> renderable_chord c \<Longrightarrow> \<exists>e. li_of c = Inl e"
proof (cases "c = JNull \<or> c = JUndefined")
  case True
  then show ?thesis by (auto simp: li_of_def)
next
  case False
  assume "\<not> renderable_chord c"
  with False show ?thesis
    by (auto simp: renderable_chord_def li_of_def prop_get_member_of formatTime_def
          to_primitive_def)
qed

lemma map_err_all:
  "(\<forall>x \<in> set xs. f x = Inr (g x)) \<Longrightarrow> map_err f xs = Inr (map g xs)"
  by (induction xs) auto

lemma map_err_some:
  "x \<in> set xs \<Longrightarrow> f x = Inl e \<Longrightarrow> \<exists>e'. map_err f xs = Inl e'"
  by (induction xs) (auto split: sum.splits)

lemma renderChords_ok:
  assumes "list_all renderable_chord cs"
  shows "\<exists>ul. renderChords (JArr cs) p = Inr (p\<lparr>chordsContainer := chordsContainer p @ [ul]\<rparr>)"
proof -
  from assms have "\<forall>c \<in> set cs. li_of c =
      Inr (member_of c ''startSec'', member_of c ''endSec'', member_of c ''label'')"
    by (simp add: list_all_iff li_of_renderable)
  then have "map_err li_of cs =
      Inr (map (\<lambda>c. (member_of c ''startSec'', member_of c ''endSec'', member_of c ''label'')) cs)"
    by (rule map_err_all)
  then have "renderChords (JArr cs) p =
      Inr (p\<lparr>chordsContainer := chordsContainer p @
        [map (\<lambda>c. (member_of c ''startSec'', member_of c ''endSec'', member_of c ''label'')) cs]\<rparr>)"
    by (simp add: renderChords_def)
  then show ?thesis by blast
qed

lemma set_add_all_subset: "set (set_add_all eq seen xs) \<subseteq> set seen \<union> set xs"
proof (induction xs arbitrary: seen)
  case Nil
  show ?case by simp
next
  case (Cons a xs)
  have "set (set_add_all eq (if list_ex (\<lambda>s. eq s a) seen then seen else seen @ [a]) xs)
          \<subseteq> set (if list_ex (\<lambda>s. eq s a) seen then seen else seen @ [a]) \<union> set xs"
    by (rule Cons.IH)
  also have "\<dots> \<subseteq> set seen \<union> set (a # xs)" by auto
  finally show ?case by simp
qed

lemma add_tags_ok:
  "\<forall>l \<in> set ls. \<not> no_primitive l \<Longrightarrow>
     add_tags ls p = (p\<lparr>chordTagsDiv := chordTagsDiv p @ ls\<rparr>, None)"
  by (induction ls arbitrary: p) (simp_all add: to_primitive_def)

lemma renderChordSummary_ok:
  assumes "list_all renderable_chord cs"
  shows "\<exists>smry tags. renderChordSummary (JArr cs) p =
        (p\<lparr>summaryText := smry, chordTagsDiv := chordTagsDiv p @ tags\<rparr>, None)"
proof -
  let ?labels = "map (\<lambda>c. member_of c ''label'') cs"
  let ?unique = "set_add_all same_value_zero [] ?labels"
  from assms have "\<forall>c \<in> set cs. prop_get c ''label'' = Inr (member_of c ''label'')"
    by (simp add: list_all_iff renderable_chord_def prop_get_member_of)
  then have m: "map_err (\<lambda>c. prop_get c ''label'') cs = Inr ?labels"
    by (rule map_err_all)
  from assms have "\<forall>l \<in> set ?labels. \<not> no_primitive l"
    by (simp add: list_all_iff renderable_chord_def)
  moreover have "set ?unique \<subseteq> set ?labels"
    using set_add_all_subset [of same_value_zero "[]" ?labels] by simp
  ultimately have u: "\<forall>l \<in> set ?unique. \<not> no_primitive l" by blast
  have "renderChordSummary (JArr cs) p =
      (p\<lparr>summaryText := ''This track uses '' @ string_of_nat (length ?unique) @ '' chords:'',
         chordTagsDiv := chordTagsDiv p @ ?unique\<rparr>, None)"
    by (simp add: renderChordSummary_def m Let_def add_tags_ok [OF u])
  then show ?thesis by blast
qed

lemma renderChords_fails:
  "\<not> renderable v \<Longrightarrow> truthy v \<Longrightarrow> \<exists>e. renderChords v p = Inl e"
proof (cases v)
  case (JArr cs)
  assume "\<not> renderable v"
  with JArr obtain c where c: "c \<in> set cs" "\<not> renderable_chord c"
    by (auto simp: list_all_iff)
  then obtain e where "li_of c = Inl e" using li_of_not_renderable by blast
  with c obtain e' where "map_err li_of cs = Inl e'" using map_err_some by metis
  with JArr show ?thesis by (simp add: renderChords_def)
qed (auto simp: renderChords_def)

lemma or_js_renderable:
  "renderable c \<Longrightarrow> \<exists>cs. or_js c (JArr []) = JArr cs \<and> list_all renderable_chord cs"
  by (cases c) (auto simp: or_js_def)

lemma handleFile_fetched:
  "api API_URL (upload_request f) = Inr res \<Longrightarrow> body_json res = Inr result \<Longrightarrow>
   prop_get result ''chords'' = Inr c \<Longrightarrow>
   handleFile api objectUrl f p =
     (let p3 = (setCurrentChordDisplay JsNull
                 (p\<lparr>statusDiv := ''Analyzing chords'' @ ELLIPSIS, currentChords := JArr []\<rparr>))
                \<lparr>chordsContainer := [], chordTagsDiv := [], summaryText := [],
                  downloadBtn_disabled := True,
                  lastAudioUrl := Some objectUrl, audioEl_src := objectUrl,
                  currentChords := or_js c (JArr [])\<rparr>
      in case renderChords (currentChords p3) p3 of
           Inl e \<Rightarrow> (p3, Some e)
         | Inr p4 \<Rightarrow>
             (case renderChordSummary (currentChords p4) p4 of
                (p5, Some e) \<Rightarrow> (p5, Some e)
              | (p5, None) \<Rightarrow>
                  (p5\<lparr>statusDiv := ''Chords detected.'', downloadBtn_disabled := False\<rparr>, None)))"
  by (simp add: handleFile_def Let_def)

lemma prop_get_chords_of:
  "result \<noteq> JNull \<Longrightarrow> result \<noteq> JUndefined \<Longrightarrow> prop_get result ''chords'' = Inr (chords_of result)"
  by (simp add: chords_of_def prop_get_member_of)

lemma handleFile_acceptable:
  assumes api: "api API_URL (upload_request f) = Inr res"
    and js: "body_json res = Inr result"
    and acc: "acceptable result"
  shows "snd (handleFile api objectUrl f p) = None"
    and "statusDiv (fst (handleFile api objectUrl f p)) = ''Chords detected.''"
    and "\<not> downloadBtn_disabled (fst (handleFile api objectUrl f p))"
    and "currentChords (fst (handleFile api objectUrl f p)) = or_js (chords_of result) (JArr [])"
proof -
  from acc have g: "prop_get result ''chords'' = Inr (chords_of result)"
    and r: "renderable (chords_of result)"
    by (simp_all add: acceptable_def prop_get_chords_of)
  from or_js_renderable [OF r] obtain cs where
    cs: "or_js (chords_of result) (JArr []) = JArr cs" "list_all renderable_chord cs"
    by blast
  let ?p3 = "(setCurrentChordDisplay JsNull
                 (p\<lparr>statusDiv := ''Analyzing chords'' @ ELLIPSIS, currentChords := JArr []\<rparr>))
                \<lparr>chordsContainer := [], chordTagsDiv := [], summaryText := [],
                  downloadBtn_disabled := True,
                  lastAudioUrl := Some objectUrl, audioEl_src := objectUrl,
                  currentChords := JArr cs\<rparr>"
  obtain ul where ul: "renderChords (JArr cs) ?p3 = Inr (?p3\<lparr>chordsContainer := chordsContainer ?p3 @ [ul]\<rparr>)"
    using renderChords_ok [OF cs(2)] by blast
  let ?p4 = "?p3\<lparr>chordsContainer := chordsContainer ?p3 @ [ul]\<rparr>"
  obtain smry tags where su: "renderChordSummary (JArr cs) ?p4 =
        (?p4\<lparr>summaryText := smry, chordTagsDiv := chordTagsDiv ?p4 @ tags\<rparr>, None)"
    using renderChordSummary_ok [OF cs(2)] by blast
  have out: "handleFile api objectUrl f p =
      ((?p4\<lparr>summaryText := smry, chordTagsDiv := chordTagsDiv ?p4 @ tags\<rparr>)
          \<lparr>statusDiv := ''Chords detected.'', downloadBtn_disabled := False\<rparr>, None)"
    unfolding handleFile_fetched [where api = api and f = f and res = res and result = result
        and c = "chords_of result" and objectUrl = objectUrl and p = p, OF api js g] cs(1) Let_def
    using ul su by simp
  show "snd (handleFile api objectUrl f p) = None" by (simp add: out)
  show "statusDiv (fst (handleFile api objectUrl f p)) = ''Chords detected.''" by (simp add: out)
  show "\<not> downloadBtn_disabled (fst (handleFile api objectUrl f p))" by (simp add: out)
  show "currentChords (fst (handleFile api objectUrl f p)) = or_js (chords_of result) (JArr [])"
    by (simp add: out cs(1))
qed

lemma renderable_truthy: "\<not> renderable v \<Longrightarrow> truthy v"
  by (cases v) auto

text \<open>
  Conversely, on every other body \<open>handleFile\<close> ends with an exception, the status text
  still "Analyzing chords..." and the download button still disabled.
\<close>

lemma handleFile_unacceptable:
  assumes api: "api API_URL (upload_request f) = Inr res"
    and js: "body_json res = Inr result"
    and acc: "\<not> acceptable result"
  shows "snd (handleFile api objectUrl f p) \<noteq> None
         \<and> statusDiv (fst (handleFile api objectUrl f p)) = ''Analyzing chords'' @ ELLIPSIS
         \<and> downloadBtn_disabled (fst (handleFile api objectUrl f p))"
proof (cases "result = JNull \<or> result = JUndefined")
  case True
  then obtain e where "prop_get result ''chords'' = Inl e" by auto
  then show ?thesis
    using api js by (simp add: handleFile_def Let_def setCurrentChordDisplay_def)
next
  case False
  then have g: "prop_get result ''chords'' = Inr (chords_of result)"
    by (simp add: prop_get_chords_of)
  from False acc have nr: "\<not> renderable (chords_of result)"
    by (simp add: acceptable_def)
  then have t: "truthy (chords_of result)" by (rule renderable_truthy)
  then have o: "or_js (chords_of result) (JArr []) = chords_of result"
    by (simp add: or_js_def)
  let ?p3 = "(setCurrentChordDisplay JsNull
                 (p\<lparr>statusDiv := ''Analyzing chords'' @ ELLIPSIS, currentChords := JArr []\<rparr>))
                \<lparr>chordsContainer := [], chordTagsDiv := [], summaryText := [],
                  downloadBtn_disabled := True,
                  lastAudioUrl := Some objectUrl, audioEl_src := objectUrl,
                  currentChords := chords_of result\<rparr>"
  obtain e where e: "renderChords (chords_of result) ?p3 = Inl e"
    using renderChords_fails [OF nr t] by blast
  have out: "handleFile api objectUrl f p = (?p3, Some e)"
    unfolding handleFile_fetched [where api = api and f = f and res = res and result = result
        and c = "chords_of result" and objectUrl = objectUrl and p = p, OF api js g] o Let_def
    using e by simp
  show ?thesis by (simp add: out setCurrentChordDisplay_def)
qed

lemma handleFile_chords_only:
  assumes "api API_URL (upload_request f) = Inr res" "body_json res = Inr result"
    and "api' API_URL (upload_request f) = Inr res'" "body_json res' = Inr result'"
    and "result \<noteq> JNull" "result \<noteq> JUndefined" "result' \<noteq> JNull" "result' \<noteq> JUndefined"
    and "chords_of result' = chords_of result"
  shows "handleFile api' objectUrl f p = handleFile api objectUrl f p"
proof -
  have g: "prop_get result ''chords'' = Inr (chords_of result)"
    using assms by (simp add: prop_get_chords_of)
  have g': "prop_get result' ''chords'' = Inr (chords_of result)"
    using assms by (simp add: prop_get_chords_of)
  show ?thesis
    unfolding handleFile_fetched [where api = api and f = f and res = res and result = result
        and c = "chords_of result" and objectUrl = objectUrl and p = p, OF assms(1,2) g]
      handleFile_fetched [where api = api' and f = f and res = res' and result = result'
        and c = "chords_of result" and objectUrl = objectUrl and p = p, OF assms(3,4) g']
    by (rule refl)
qed

lemma error_reply_acceptable:
  "status (fst (handler e req)) \<noteq> 200 \<Longrightarrow>
     acceptable (sent (fst (handler e req))) \<and> chords_of (sent (fst (handler e req))) = JUndefined"
  by (auto simp: handler_def handler_try_def catch_reply_def Let_def acceptable_def chords_of_def
        member_of_def split: sum.splits prod.splits if_splits)

text \<open>
  Claim C8, as amended. For every response whose body parses to a value other than
  \<open>null\<close> with a \<open>chords\<close> member that is absent, falsy or an array of chords that
  can be rendered (none is \<open>null\<close>, and the \<open>startSec\<close>, \<open>endSec\<close> and \<open>label\<close> of
  each have a primitive value), \<open>handleFile\<close> ends without an exception, has set
  \<open>currentChords\<close> to the \<open>chords\<close> member when that is truthy and to the empty list
  otherwise, shows "Chords detected." and has enabled the download button. Every error
  body \<open>{ error, details }\<close> and every object without \<open>chords\<close> is such a body. The
  page depends on the body through its \<open>chords\<close> member only, so nothing of \<open>error\<close>
  or \<open>details\<close> is shown.
\<close>

theorem upload_result_applied:
  assumes api: "api API_URL (upload_request f) = Inr res"
    and js: "body_json res = Inr result"
    and acc: "acceptable result"
  shows "snd (handleFile api objectUrl f p) = None
       \<and> currentChords (fst (handleFile api objectUrl f p)) = or_js (chords_of result) (JArr [])
       \<and> statusDiv (fst (handleFile api objectUrl f p)) = ''Chords detected.''
       \<and> \<not> downloadBtn_disabled (fst (handleFile api objectUrl f p))
       \<and> (\<forall>api' res' result'.
            api' API_URL (upload_request f) = Inr res' \<and> body_json res' = Inr result'
            \<and> acceptable result' \<and> chords_of result' = chords_of result
            \<longrightarrow> handleFile api' objectUrl f p = handleFile api objectUrl f p)"
proof -
  from acc have n: "result \<noteq> JNull" "result \<noteq> JUndefined" by (simp_all add: acceptable_def)
  have "\<forall>api' res' result'.
            api' API_URL (upload_request f) = Inr res' \<and> body_json res' = Inr result'
            \<and> acceptable result' \<and> chords_of result' = chords_of result
            \<longrightarrow> handleFile api' objectUrl f p = handleFile api objectUrl f p"
  proof (intro allI impI, elim conjE)
    fix api' :: "string \<Rightarrow> request \<Rightarrow> js_error + response" and res' :: response
      and result' :: jsval
    assume a: "api' API_URL (upload_request f) = Inr res'" "body_json res' = Inr result'"
      "acceptable result'" "chords_of result' = chords_of result"
    from a(3) have n': "result' \<noteq> JNull" "result' \<noteq> JUndefined" by (simp_all add: acceptable_def)
    show "handleFile api' objectUrl f p = handleFile api objectUrl f p"
      using handleFile_chords_only [where api = api and api' = api' and f = f,
          OF api js a(1,2) n n' a(4)] .
  qed
  with handleFile_acceptable [where api = api and f = f and objectUrl = objectUrl and p = p,
      OF api js acc]
  show ?thesis by blast
qed


theorem upload_result_applied_witness:
  "(let api = (\<lambda>u r. Inr \<lparr>ok = False, body_text = Inr [],
                            body_json = Inr (JObj [(''error'', JStr ''Python service failed''),
                                                   (''details'', JStr ''boom'')])\<rparr>);
        f = \<lparr>file_name = ''a.wav'', file_type = ''audio/wav'', file_base64 = ''AAEC''\<rparr>;
        p = \<lparr>currentChordSpan = ''G'', chordImageContainer = [],
             statusDiv = ''Chords detected.'', currentChords = JArr [], chordsContainer = [],
             chordTagsDiv = [], summaryText = [], downloadBtn_disabled = False,
             lastAudioUrl = None, audioEl_src = []\<rparr>;
        out = handleFile api ''blob:1'' f p
    in acceptable (JObj [(''error'', JStr ''Python service failed''), (''details'', JStr ''boom'')])
       \<and> snd out = None
       \<and> currentChords (fst out) = JArr []
       \<and> statusDiv (fst out) = ''Chords detected.''
       \<and> \<not> downloadBtn_disabled (fst out))"
proof -
  let ?result = "JObj [(''error'', JStr ''Python service failed''), (''details'', JStr ''boom'')]"
  let ?res = "\<lparr>ok = False, body_text = Inr [], body_json = Inr ?result\<rparr>"
  let ?api = "\<lambda>(u::string) (r::request). (Inr ?res :: js_error + response)"
  let ?f = "\<lparr>file_name = ''a.wav'', file_type = ''audio/wav'', file_base64 = ''AAEC''\<rparr>"
  let ?p = "\<lparr>currentChordSpan = ''G'', chordImageContainer = [],
             statusDiv = ''Chords detected.'', currentChords = JArr [], chordsContainer = [],
             chordTagsDiv = [], summaryText = [], downloadBtn_disabled = False,
             lastAudioUrl = None, audioEl_src = []\<rparr>"
  have a: "?api API_URL (upload_request ?f) = Inr ?res" by simp
  have j: "body_json ?res = Inr ?result" by simp
  have acc: "acceptable ?result" by (simp add: acceptable_def chords_of_def member_of_def)
  have c: "or_js (chords_of ?result) (JArr []) = JArr []"
    by (simp add: chords_of_def member_of_def or_js_def)
  from upload_result_applied [where api = ?api and f = ?f and objectUrl = "''blob:1''" and p = ?p,
      OF a j acc]
  have "snd (handleFile ?api ''blob:1'' ?f ?p) = None
      \<and> currentChords (fst (handleFile ?api ''blob:1'' ?f ?p)) = or_js (chords_of ?result) (JArr [])
      \<and> statusDiv (fst (handleFile ?api ''blob:1'' ?f ?p)) = ''Chords detected.''
      \<and> \<not> downloadBtn_disabled (fst (handleFile ?api ''blob:1'' ?f ?p))"
    by blast
  then show ?thesis unfolding Let_def c using acc by blast
qed

text \<open>
  Claim C8 as stated ranges over every response body. The handler relays whatever JSON
  the backend sends with a success status. When that is \<open>null\<close>, or holds a \<open>chords\<close>
  member that is a non-empty string, or an array with a \<open>null\<close> element, or an array
  with a chord whose label is an object with an own member \<open>toString\<close>, \<open>handleFile\<close>
  ends with a \<open>TypeError\<close>: the status text stays at "Analyzing chords..." and the
  download button stays disabled.
\<close>

theorem upload_any_body_counterexample:
  "(let answer = (\<lambda>v u r. Inr \<lparr>ok = True, body_text = Inr [], body_json = Inr v\<rparr>);
        e = \<lparr>bufferFrom = (\<lambda>d. Inr [0, 1, 2]),
             fetch = (\<lambda>u b. Inr \<lparr>ok = True, body_text = Inr ''null'', body_json = Inr JNull\<rparr>),
             wording = (\<lambda>c. ''TypeError'')\<rparr>;
        f = \<lparr>file_name = ''a.wav'', file_type = ''audio/wav'', file_base64 = ''AAEC''\<rparr>;
        p = \<lparr>currentChordSpan = ''G'', chordImageContainer = [],
             statusDiv = [], currentChords = JArr [], chordsContainer = [],
             chordTagsDiv = [], summaryText = [], downloadBtn_disabled = True,
             lastAudioUrl = None, audioEl_src = []\<rparr>;
        out = handleFile (answer JNull) ''blob:1'' f p;
        out2 = handleFile (answer (JObj [(''chords'', JStr ''C G Am'')])) ''blob:1'' f p;
        out3 = handleFile (answer (JObj [(''chords'', JArr [JNull])])) ''blob:1'' f p;
        out4 = handleFile
                 (answer (JObj [(''chords'',
                    JArr [JObj [(''startSec'', JNum 0), (''endSec'', JNum 2),
                                (''label'', JObj [(''toString'', JNum 1)])]])]))
                 ''blob:1'' f p
    in fst (handler e (upload_request f)) = \<lparr>status = 200, sent = JNull\<rparr>
       \<and> snd out \<noteq> None
       \<and> statusDiv (fst out) = ''Analyzing chords'' @ ELLIPSIS
       \<and> statusDiv (fst out) \<noteq> ''Chords detected.''
       \<and> downloadBtn_disabled (fst out)
       \<and> snd out2 \<noteq> None
       \<and> statusDiv (fst out2) \<noteq> ''Chords detected.''
       \<and> downloadBtn_disabled (fst out2)
       \<and> snd out3 \<noteq> None
       \<and> statusDiv (fst out3) \<noteq> ''Chords detected.''
       \<and> downloadBtn_disabled (fst out3)
       \<and> snd out4 \<noteq> None
       \<and> statusDiv (fst out4) \<noteq> ''Chords detected.''
       \<and> downloadBtn_disabled (fst out4))"
  by (simp add: Let_def handler_def handler_try_def destructure_def upload_request_def
        upload_form_def handleFile_def setCurrentChordDisplay_def renderChords_def li_of_def
        formatTime_def to_primitive_def or_js_def ELLIPSIS_def)

text \<open>
  What the relay sends on a failure is always acceptable and has no \<open>chords\<close>, and so
  is the JSON of a timeline of well-formed intervals.
\<close>

lemma relay_failure_ignored:
  assumes "api API_URL (upload_request f) = Inr res"
    and "body_json res = Inr (sent (fst (handler e req)))"
    and "status (fst (handler e req)) \<noteq> 200"
  shows "snd (handleFile api objectUrl f p) = None
       \<and> currentChords (fst (handleFile api objectUrl f p)) = JArr []
       \<and> statusDiv (fst (handleFile api objectUrl f p)) = ''Chords detected.''
       \<and> \<not> downloadBtn_disabled (fst (handleFile api objectUrl f p))"
proof -
  from error_reply_acceptable [OF assms(3)]
  have acc: "acceptable (sent (fst (handler e req)))"
    and c: "chords_of (sent (fst (handler e req))) = JUndefined" by simp_all
  from handleFile_acceptable [where api = api and f = f and objectUrl = objectUrl and p = p,
      OF assms(1,2) acc]
  show ?thesis by (simp add: c or_js_def)
qed

lemma timeline_json_accepted:
  "acceptable (timeline_json cs)
   \<and> or_js (chords_of (timeline_json cs)) (JArr []) = JArr (map interval_json cs)"
  by (auto simp: acceptable_def timeline_json_def chords_of_def member_of_def or_js_def
        interval_json_def renderable_chord_def list_all_iff)


section \<open>Properties of the chord-sheet export\<close>

lemma set_add_all_set: "set (set_add_all (=) seen xs) = set seen \<union> set xs"
  by (induction xs arbitrary: seen) (auto simp: list_ex_iff)

lemma add_diagrams_None_iff:
  "add_diagrams loads xs y = None \<longleftrightarrow> (\<exists>ch \<in> set xs. \<not> loads (image_src ch))"
proof (induction xs arbitrary: y)
  case Nil
  show ?case by simp
next
  case (Cons a xs)
  have "add_diagrams loads (a # xs) y = None \<longleftrightarrow>
          \<not> loads (image_src a) \<or> add_diagrams loads xs (y + 4 + 60) = None"
    by (simp add: loadImage_def split: option.splits)
  also have "\<dots> \<longleftrightarrow> \<not> loads (image_src a) \<or> (\<exists>ch \<in> set xs. \<not> loads (image_src ch))"
    by (simp only: Cons.IH)
  finally show ?case by simp
qed

lemma onclick_None_iff:
  "onclick loads chords = None \<longleftrightarrow> (\<exists>c \<in> set chords. \<not> loads (image_src (label c)))"
proof -
  obtain names y where n: "list_names (set_add_all (=) [] (map label chords)) (30 + 8) = (names, y)"
    by (cases "list_names (set_add_all (=) [] (map label chords)) (30 + 8)") auto
  have "onclick loads chords = None \<longleftrightarrow>
          add_diagrams loads (set_add_all (=) [] (map label chords)) (y + 10) = None"
    using n by (simp add: onclick_def Let_def split: option.splits)
  also have "\<dots> \<longleftrightarrow> (\<exists>ch \<in> set (map label chords). \<not> loads (image_src ch))"
    by (simp only: add_diagrams_None_iff set_add_all_set) simp
  finally show ?thesis by simp
qed

lemma list_names_no_save: "list_names xs y = (ops, y') \<Longrightarrow> Save s \<notin> set ops"
  by (induction xs arbitrary: y ops y') (auto split: prod.splits)

lemma add_diagrams_no_save: "add_diagrams loads xs y = Some ops \<Longrightarrow> Save s \<notin> set ops"
  by (induction xs arbitrary: y ops) (auto split: option.splits)

lemma onclick_Some_saves:
  assumes "onclick loads chords = Some ops"
  shows "\<exists>before. ops = before @ [Save ''track2tabs.pdf''] \<and> Save ''track2tabs.pdf'' \<notin> set before"
proof -
  obtain names y where n: "list_names (set_add_all (=) [] (map label chords)) (30 + 8) = (names, y)"
    by (cases "list_names (set_add_all (=) [] (map label chords)) (30 + 8)") auto
  from assms n obtain diagrams where
    d: "add_diagrams loads (set_add_all (=) [] (map label chords)) (y + 10) = Some diagrams"
    and o: "ops = ([SetFontSize 18, Text (''Track2Tabs '' @ EN_DASH @ '' Chord Sheet'') 14 20,
                    SetFontSize 14, Text ''Chord Map'' 14 30] @ names @ diagrams)
                  @ [Save ''track2tabs.pdf'']"
    by (auto simp: onclick_def Let_def split: option.splits)
  have "Save ''track2tabs.pdf'' \<notin> set names" using n by (rule list_names_no_save)
  moreover have "Save ''track2tabs.pdf'' \<notin> set diagrams" using d by (rule add_diagrams_no_save)
  ultimately have "Save ''track2tabs.pdf'' \<notin>
      set ([SetFontSize 18, Text (''Track2Tabs '' @ EN_DASH @ '' Chord Sheet'') 14 20,
            SetFontSize 14, Text ''Chord Map'' 14 30] @ names @ diagrams)"
    by simp
  with o show ?thesis by blast
qed

text \<open>The source asked for a label, by the three outcomes of the lookup.\<close>

lemma image_src_own:
  "own_entry ch = Some fname \<Longrightarrow> image_src ch = Url (CHORD_IMAGE_BASE @ fname)"
  by (simp add: image_src_def CHORD_IMAGE_MAP_def base_plus_def)

lemma image_src_undefined:
  "CHORD_IMAGE_MAP ch = None \<Longrightarrow> image_src ch = Url (CHORD_IMAGE_BASE @ ''undefined'')"
  by (simp add: image_src_def base_plus_def)

lemma image_src_inherited:
  "own_entry ch = None \<Longrightarrow> ch \<in> set OBJECT_PROTOTYPE_KEYS \<Longrightarrow>
     image_src ch = UrlOfMember CHORD_IMAGE_BASE ch"
  by (simp add: image_src_def CHORD_IMAGE_MAP_def base_plus_def)

text \<open>
  Claim C10, as amended. The export completes exactly when the image asked for every
  label of the timeline loads, and then its last call, and no earlier one, saves the
  document; when an image does not load, its promise stays pending and the document is
  never saved. The image asked for is \<open>/chords/\<close> followed by the filename for a label
  with an entry of its own in \<open>CHORD_IMAGE_MAP\<close>, and \<open>/chords/undefined\<close> for a
  label whose lookup is \<open>undefined\<close>. So where the mapped diagrams load, the export
  completes when every label has an entry; and where \<open>/chords/undefined\<close> does not
  load, it never completes when some label has neither an entry nor an inherited member.
\<close>

theorem export_termination:
  "(onclick loads chords \<noteq> None \<longleftrightarrow> (\<forall>c \<in> set chords. loads (image_src (label c))))
   \<and> (\<forall>ops. onclick loads chords = Some ops \<longrightarrow>
        (\<exists>before. ops = before @ [Save ''track2tabs.pdf'']
                  \<and> Save ''track2tabs.pdf'' \<notin> set before))
   \<and> (\<forall>ch fname. own_entry ch = Some fname \<longrightarrow>
        image_src ch = Url (CHORD_IMAGE_BASE @ fname))
   \<and> (\<forall>ch. CHORD_IMAGE_MAP ch = None \<longrightarrow> image_src ch = Url (CHORD_IMAGE_BASE @ ''undefined''))
   \<and> ((\<forall>ch fname. own_entry ch = Some fname \<longrightarrow> loads (Url (CHORD_IMAGE_BASE @ fname)))
        \<and> (\<forall>c \<in> set chords. own_entry (label c) \<noteq> None)
       \<longrightarrow> onclick loads chords \<noteq> None)
   \<and> (\<not> loads (Url (CHORD_IMAGE_BASE @ ''undefined''))
        \<and> (\<exists>c \<in> set chords. CHORD_IMAGE_MAP (label c) = None)
       \<longrightarrow> onclick loads chords = None)"
proof (intro conjI allI impI)
  show "onclick loads chords \<noteq> None \<longleftrightarrow> (\<forall>c \<in> set chords. loads (image_src (label c)))"
    by (simp add: onclick_None_iff)
next
  fix ops assume "onclick loads chords = Some ops"
  then show "\<exists>before. ops = before @ [Save ''track2tabs.pdf'']
                  \<and> Save ''track2tabs.pdf'' \<notin> set before"
    by (rule onclick_Some_saves)
next
  fix ch fname assume "own_entry ch = Some fname"
  then show "image_src ch = Url (CHORD_IMAGE_BASE @ fname)" by (rule image_src_own)
next
  fix ch assume "CHORD_IMAGE_MAP ch = None"
  then show "image_src ch = Url (CHORD_IMAGE_BASE @ ''undefined'')" by (rule image_src_undefined)
next
  assume a: "(\<forall>ch fname. own_entry ch = Some fname \<longrightarrow> loads (Url (CHORD_IMAGE_BASE @ fname)))
        \<and> (\<forall>c \<in> set chords. own_entry (label c) \<noteq> None)"
  have "\<forall>c \<in> set chords. loads (image_src (label c))"
  proof
    fix c assume "c \<in> set chords"
    with a obtain fname where f: "own_entry (label c) = Some fname" by auto
    with a have "loads (Url (CHORD_IMAGE_BASE @ fname))" by blast
    with f show "loads (image_src (label c))" by (simp add: image_src_own)
  qed
  then show "onclick loads chords \<noteq> None" by (simp add: onclick_None_iff)
next
  assume b: "\<not> loads (Url (CHORD_IMAGE_BASE @ ''undefined''))
        \<and> (\<exists>c \<in> set chords. CHORD_IMAGE_MAP (label c) = None)"
  then obtain c where c: "c \<in> set chords" "CHORD_IMAGE_MAP (label c) = None" by auto
  with b have "\<not> loads (image_src (label c))" by (simp add: image_src_undefined)
  with c show "onclick loads chords = None" by (auto simp: onclick_None_iff)
qed

theorem export_termination_witness:
  "(let loads = (\<lambda>s. s \<in> set (map (\<lambda>(l, f). Url (CHORD_IMAGE_BASE @ f)) CHORD_IMAGE_TABLE));
        c = \<lparr>startSec = 0, endSec = 2, label = ''C''\<rparr>;
        g = \<lparr>startSec = 2, endSec = 4, label = ''G''\<rparr>;
        x = \<lparr>startSec = 4, endSec = 6, label = ''F#m''\<rparr>
    in \<not> loads (Url (CHORD_IMAGE_BASE @ ''undefined''))
       \<and> own_entry ''C'' = Some ''c-major-v1.png''
       \<and> own_entry ''G'' = Some ''g-major-v1.png''
       \<and> CHORD_IMAGE_MAP ''F#m'' = None
       \<and> onclick loads [c, g, c] \<noteq> None
       \<and> onclick loads [c, x, g] = None)"
proof -
  let ?loads = "\<lambda>s. s \<in> set (map (\<lambda>(l, f). Url (CHORD_IMAGE_BASE @ f)) CHORD_IMAGE_TABLE)"
  let ?c = "\<lparr>startSec = 0, endSec = 2, label = ''C''\<rparr>"
  let ?g = "\<lparr>startSec = 2, endSec = 4, label = ''G''\<rparr>"
  let ?x = "\<lparr>startSec = 4, endSec = 6, label = ''F#m''\<rparr>"
  have all: "\<forall>ch f. own_entry ch = Some f \<longrightarrow> ?loads (Url (CHORD_IMAGE_BASE @ f))"
  proof (intro allI impI)
    fix ch f assume "own_entry ch = Some f"
    then have "(ch, f) \<in> set CHORD_IMAGE_TABLE"
      unfolding own_entry_def by (rule map_of_SomeD)
    then show "?loads (Url (CHORD_IMAGE_BASE @ f))" by force
  qed
  have u: "\<not> ?loads (Url (CHORD_IMAGE_BASE @ ''undefined''))"
    by (simp add: CHORD_IMAGE_TABLE_def CHORD_IMAGE_BASE_def)
  have mc: "own_entry ''C'' = Some ''c-major-v1.png''"
    by (simp add: own_entry_def CHORD_IMAGE_TABLE_def)
  have mg: "own_entry ''G'' = Some ''g-major-v1.png''"
    by (simp add: own_entry_def CHORD_IMAGE_TABLE_def)
  have mx: "CHORD_IMAGE_MAP ''F#m'' = None"
    by (simp add: CHORD_IMAGE_MAP_def own_entry_def CHORD_IMAGE_TABLE_def OBJECT_PROTOTYPE_KEYS_def)
  note t1 = export_termination [of ?loads "[?c, ?g, ?c]"]
  note t2 = export_termination [of ?loads "[?c, ?x, ?g]"]
  have ok: "onclick ?loads [?c, ?g, ?c] \<noteq> None"
  proof -
    have "(\<forall>ch fname. own_entry ch = Some fname \<longrightarrow> ?loads (Url (CHORD_IMAGE_BASE @ fname)))
        \<and> (\<forall>c \<in> set [?c, ?g, ?c]. own_entry (label c) \<noteq> None)"
      using all mc mg by simp
    with t1 show ?thesis by blast
  qed
  have no: "onclick ?loads [?c, ?x, ?g] = None"
  proof -
    have "\<not> ?loads (Url (CHORD_IMAGE_BASE @ ''undefined''))
        \<and> (\<exists>c \<in> set [?c, ?x, ?g]. CHORD_IMAGE_MAP (label c) = None)"
      using u mx by simp
    with t2 show ?thesis by blast
  qed
  from ok no u mc mg mx show ?thesis unfolding Let_def by blast
qed

text \<open>
  Claim C10 as stated makes termination depend on the entries alone. With the only label
  \<open>C\<close>, which has an entry, the export never completes when the diagram does not load;
  with the only label \<open>F#m\<close>, which has none, it completes and saves the document when
  \<open>/chords/undefined\<close> loads.
\<close>

theorem export_termination_counterexample:
  "(let c = \<lparr>startSec = 0, endSec = 2, label = ''C''\<rparr>;
        x = \<lparr>startSec = 4, endSec = 6, label = ''F#m''\<rparr>
    in own_entry ''C'' = Some ''c-major-v1.png''
       \<and> onclick (\<lambda>s. False) [c] = None
       \<and> own_entry ''F#m'' = None
       \<and> onclick (\<lambda>s. True) [x] =
           Some [SetFontSize 18, Text (''Track2Tabs '' @ EN_DASH @ '' Chord Sheet'') 14 20,
                 SetFontSize 14, Text ''Chord Map'' 14 30,
                 Text (BULLET @ '' '' @ ''F#m'') 20 38,
                 Text ''F#m'' 14 54,
                 AddImage (Url ''/chords/undefined'') ''PNG'' 14 58 40 50,
                 Save ''track2tabs.pdf''])"
  by (simp add: Let_def onclick_def loadImage_def image_src_def base_plus_def CHORD_IMAGE_MAP_def
        own_entry_def CHORD_IMAGE_TABLE_def CHORD_IMAGE_BASE_def OBJECT_PROTOTYPE_KEYS_def)

end
